theory Spec2Isabelle
  imports Main "HOL-Library.Char_ord" "HOL-Library.List_Lexorder" "HOL-Library.Product_Lexorder"
    "HOL-Library.Sublist"
begin

section \<open>Data model (frontend/src/types/index.ts)\<close>

datatype AppointmentStatus = scheduled | in_consultation | completed | cancelled | no_show

text \<open>
  The interfaces \<^verbatim>\<open>Doctor\<close>, \<^verbatim>\<open>Patient\<close> and \<^verbatim>\<open>Appointment\<close>. Field names carry a
  prefix where two interfaces share a name (\<^verbatim>\<open>id\<close>, \<^verbatim>\<open>created_at\<close>, ...). A field that
  is optional in the interface is an \<open>option\<close>. \<^verbatim>\<open>Patient.last_name\<close> is declared a
  string, but the code guards it with \<^verbatim>\<open>|| ''\<close>, so the model lets it be absent.
\<close>

record Doctor =
  d_id :: string
  d_email :: string
  full_name :: string
  specialty :: "string option"

record Patient =
  p_id :: string
  first_name :: string
  last_name :: "string option"
  phone :: string
  p_telegram_id :: "string option"
  age :: "int option"

record Appointment =
  a_id :: string
  patient_id :: string
  doctor_id :: string
  appointment_date :: string
  appointment_time :: string
  complaint :: "string option"
  status :: AppointmentStatus
  a_telegram_id :: "string option"
  created_at :: "string option"
  updated_at :: "string option"
  patient :: "Patient option"
  doctor :: "Doctor option"

section \<open>The data store\<close>

text \<open>
  The managed data store holds three tables the code reads. A stored appointment row has
  no \<open>patient\<close> and no \<open>doctor\<close>: a select that asks for \<^verbatim>\<open>patient:patients(*)\<close> or
  \<^verbatim>\<open>doctor:doctors(*)\<close> fills them in by the foreign key.

  Every request to the store answers \<^verbatim>\<open>{ data, error }\<close>. Whether a request fails is
  decided outside the program, so each operation below takes the error of its request (if
  any) as an argument \<open>err\<close>.
\<close>

record DataStore =
  appointments_tbl :: "Appointment list"
  patients_tbl :: "Patient list"
  doctors_tbl :: "Doctor list"

datatype 'a response = Response (data: "'a option") (error: "string option")

definition request :: "string option \<Rightarrow> 'a \<Rightarrow> 'a response" where
  "request err rows = (case err of Some e \<Rightarrow> Response None (Some e) | None \<Rightarrow> Response (Some rows) None)"

definition is_active :: "AppointmentStatus \<Rightarrow> bool" where
  "is_active s = (s = scheduled \<or> s = in_consultation)"

section \<open>Conflict checker\<close>

subsection \<open>Time strings to minutes\<close>

text \<open>
  \<^verbatim>\<open>time.split(':')\<close>: the pieces between the separators; the empty string gives one
  empty piece.
\<close>

fun split_str :: "char \<Rightarrow> string \<Rightarrow> string list" where
  "split_str c [] = [[]]"
| "split_str c (x # xs) =
     (if x = c then [] # split_str c xs
      else (case split_str c xs of p # ps \<Rightarrow> (x # p) # ps | [] \<Rightarrow> [[x]]))"

definition is_digit :: "char \<Rightarrow> bool" where
  "is_digit c = (CHR ''0'' \<le> c \<and> c \<le> CHR ''9'')"

definition digit_val :: "char \<Rightarrow> int" where
  "digit_val c = int (of_char c) - 48"

text \<open>
  \<^verbatim>\<open>Number(s)\<close> on the strings a time is made of. A JavaScript number is modelled as an
  \<open>int option\<close>, \<open>None\<close> being \<^verbatim>\<open>NaN\<close>. The pieces of a time written by the time input
  (\<^verbatim>\<open>HH:MM\<close>) or read from the store (\<^verbatim>\<open>HH:MM:SS\<close>) are runs of decimal digits, and
  on these (and on the empty string, which is 0) the model is exact. Signs, fractions,
  exponents, radix prefixes and white space, which \<^verbatim>\<open>Number\<close> also reads, are outside the
  model and give \<open>None\<close>.
\<close>

definition Number :: "string \<Rightarrow> int option" where
  "Number s = (if list_all is_digit s then Some (foldl (\<lambda>n c. 10 * n + digit_val c) 0 s) else None)"

text \<open>Arithmetic and comparison with \<^verbatim>\<open>NaN\<close>: \<^verbatim>\<open>NaN\<close> spreads, and \<^verbatim>\<open>NaN < 30\<close> is false.\<close>

definition js_sub :: "int option \<Rightarrow> int option \<Rightarrow> int option" where
  "js_sub a b = (case (a, b) of (Some x, Some y) \<Rightarrow> Some (x - y) | _ \<Rightarrow> None)"

definition js_abs :: "int option \<Rightarrow> int option" where
  "js_abs a = map_option abs a"

definition js_less :: "int option \<Rightarrow> int \<Rightarrow> bool" where
  "js_less a n = (case a of Some x \<Rightarrow> x < n | None \<Rightarrow> False)"

text \<open>
  \<^verbatim>\<open>const [hours, minutes] = time.split(':').map(Number); return hours * 60 + minutes\<close>.
  With a single piece \<^verbatim>\<open>minutes\<close> is undefined and the sum is \<^verbatim>\<open>NaN\<close>; pieces after
  the second (the seconds) are ignored.
\<close>

definition timeToMinutes :: "string \<Rightarrow> int option" where
  "timeToMinutes t =
     (case map Number (split_str CHR '':'' t) of
        hours # minutes # _ \<Rightarrow>
          (case (hours, minutes) of (Some h, Some m) \<Rightarrow> Some (h * 60 + m) | _ \<Rightarrow> None)
      | _ \<Rightarrow> None)"

subsection \<open>checkTimeConflict of CreateAppointmentForm.tsx\<close>

text \<open>The loop over the fetched times, with its early \<^verbatim>\<open>return true\<close>.\<close>

fun conflict_loop :: "int option \<Rightarrow> string list \<Rightarrow> bool" where
  "conflict_loop newTimeInMinutes [] = False"
| "conflict_loop newTimeInMinutes (apt # rest) =
     (let existingTimeInMinutes = timeToMinutes apt;
          timeDifference = js_abs (js_sub newTimeInMinutes existingTimeInMinutes)
      in if js_less timeDifference 30 then True else conflict_loop newTimeInMinutes rest)"

text \<open>
  The select of the create form: the times of the doctor's appointments on the date whose
  status is \<^verbatim>\<open>scheduled\<close> or \<^verbatim>\<open>in_consultation\<close>.
\<close>

definition select_times :: "DataStore \<Rightarrow> string \<Rightarrow> string \<Rightarrow> string list" where
  "select_times db doctorId appointmentDate =
     map appointment_time
       (filter (\<lambda>a. doctor_id a = doctorId \<and> appointment_date a = appointmentDate \<and>
                     status a \<in> {scheduled, in_consultation})
          (appointments_tbl db))"

text \<open>The result is \<open>Inl e\<close> when the function throws the store's error \<open>e\<close>.\<close>

definition checkTimeConflict ::
  "DataStore \<Rightarrow> string option \<Rightarrow> string \<Rightarrow> string \<Rightarrow> string \<Rightarrow> string + bool" where
  "checkTimeConflict db err doctorId appointmentDate appointmentTime =
     (case request err (select_times db doctorId appointmentDate) of
        Response _ (Some e) \<Rightarrow> Inl e
      | Response None None \<Rightarrow> Inr False
      | Response (Some existingAppointments) None \<Rightarrow>
          if length existingAppointments = 0 then Inr False
          else Inr (conflict_loop (timeToMinutes appointmentTime) existingAppointments))"

subsection \<open>checkTimeConflict of EditAppointmentForm.tsx\<close>

text \<open>The same select with \<^verbatim>\<open>.neq('id', currentAppointmentId)\<close>; the rest is the same code.\<close>

definition select_times_except :: "DataStore \<Rightarrow> string \<Rightarrow> string \<Rightarrow> string \<Rightarrow> string list" where
  "select_times_except db doctorId appointmentDate currentAppointmentId =
     map appointment_time
       (filter (\<lambda>a. doctor_id a = doctorId \<and> appointment_date a = appointmentDate \<and>
                     status a \<in> {scheduled, in_consultation} \<and> a_id a \<noteq> currentAppointmentId)
          (appointments_tbl db))"

definition checkTimeConflict_edit ::
  "DataStore \<Rightarrow> string option \<Rightarrow> string \<Rightarrow> string \<Rightarrow> string \<Rightarrow> string \<Rightarrow> string + bool" where
  "checkTimeConflict_edit db err doctorId appointmentDate appointmentTime currentAppointmentId =
     (case request err (select_times_except db doctorId appointmentDate currentAppointmentId) of
        Response _ (Some e) \<Rightarrow> Inl e
      | Response None None \<Rightarrow> Inr False
      | Response (Some existingAppointments) None \<Rightarrow>
          if length existingAppointments = 0 then Inr False
          else Inr (conflict_loop (timeToMinutes appointmentTime) existingAppointments))"

text \<open>
  What the claims call the difference of two times: the absolute difference of their
  minutes since midnight, when both times convert.
\<close>

definition minutes_apart :: "string \<Rightarrow> string \<Rightarrow> int option" where
  "minutes_apart t u =
     (case (timeToMinutes t, timeToMinutes u) of (Some m, Some n) \<Rightarrow> Some \<bar>m - n\<bar> | _ \<Rightarrow> None)"

definition within_30 :: "string \<Rightarrow> string \<Rightarrow> bool" where
  "within_30 t u = (case minutes_apart t u of Some d \<Rightarrow> d < 30 | None \<Rightarrow> False)"

subsection \<open>Minutes since midnight\<close>

text \<open>
  The minutes since midnight of a time of day, read off the characters of the time and
  not through the code's conversion: a time is written \<^verbatim>\<open>HH:MM\<close> (the time input) or
  \<^verbatim>\<open>HH:MM:SS\<close> (a time column), and its minutes since midnight are 60 times the hour
  plus the minute.
\<close>

definition decimal_digit :: "char \<Rightarrow> bool" where
  "decimal_digit c = (c \<in> set ''0123456789'')"

definition two_digits :: "char \<Rightarrow> char \<Rightarrow> int" where
  "two_digits a b = 10 * (int (of_char a) - 48) + (int (of_char b) - 48)"

definition is_time_string :: "string \<Rightarrow> bool" where
  "is_time_string t =
     ((length t = 5 \<or> length t = 8) \<and>
      decimal_digit (t ! 0) \<and> decimal_digit (t ! 1) \<and> t ! 2 = CHR '':'' \<and>
      decimal_digit (t ! 3) \<and> decimal_digit (t ! 4) \<and>
      (length t = 8 \<longrightarrow> t ! 5 = CHR '':'' \<and> decimal_digit (t ! 6) \<and> decimal_digit (t ! 7)))"

definition minutes_since_midnight :: "string \<Rightarrow> int" where
  "minutes_since_midnight t = two_digits (t ! 0) (t ! 1) * 60 + two_digits (t ! 3) (t ! 4)"


section \<open>Writes to the appointments table\<close>

text \<open>
  \<^verbatim>\<open>.update(values).eq('id', id)\<close> changes every row with that id. The migration of this
  repository installs the trigger \<^verbatim>\<open>update_appointments_updated_at\<close>, which sets
  \<^verbatim>\<open>updated_at\<close> of each updated row to the time of the update (\<open>now\<close>). A failed
  request changes nothing.
\<close>

definition update_appointments ::
  "DataStore \<Rightarrow> string option \<Rightarrow> string \<Rightarrow> string \<Rightarrow> (Appointment \<Rightarrow> Appointment) \<Rightarrow> DataStore" where
  "update_appointments db err now i values =
     (case err of
        Some e \<Rightarrow> db
      | None \<Rightarrow>
          db\<lparr>appointments_tbl :=
               map (\<lambda>a. if a_id a = i then (values a)\<lparr>updated_at := Some now\<rparr> else a)
                 (appointments_tbl db)\<rparr>)"

section \<open>Doctor dashboard (frontend/src/pages/DoctorDashboard.tsx)\<close>

record DoctorDashboard =
  appointments :: "Appointment list"
  currentAppointment :: "Appointment option"
  nextAppointments :: "Appointment list"
  completedCount :: nat
  selectedForNoShow :: "Appointment option"

definition join_patient :: "DataStore \<Rightarrow> Appointment \<Rightarrow> Appointment" where
  "join_patient db a = a\<lparr>patient := find (\<lambda>p. p_id p = patient_id a) (patients_tbl db)\<rparr>"

definition join_doctor :: "DataStore \<Rightarrow> Appointment \<Rightarrow> Appointment" where
  "join_doctor db a = a\<lparr>doctor := find (\<lambda>d. d_id d = doctor_id a) (doctors_tbl db)\<rparr>"

text \<open>
  The doctor's select: the doctor's appointments of the day in the three statuses the
  dashboard shows, with the patient joined, ordered by \<^verbatim>\<open>appointment_time\<close> ascending.
  Times are compared as strings, which is the order of the time of day for times written
  \<^verbatim>\<open>HH:MM:SS\<close>; rows with equal times keep the table's order.
\<close>

definition select_doctor_day :: "DataStore \<Rightarrow> string \<Rightarrow> string \<Rightarrow> Appointment list" where
  "select_doctor_day db doctorId searchDate =
     sort_key appointment_time
       (map (join_patient db)
          (filter (\<lambda>a. doctor_id a = doctorId \<and> appointment_date a = searchDate \<and>
                        status a \<in> {scheduled, in_consultation, completed})
             (appointments_tbl db)))"

text \<open>
  \<open>profile_doctor_id\<close> is \<^verbatim>\<open>userProfile?.doctor_id\<close>, \<open>searchDate\<close> the selected date as
  \<^verbatim>\<open>yyyy-MM-dd\<close>. On an error the list on screen stays as it was.
\<close>

definition fetchAppointments ::
  "DataStore \<Rightarrow> string option \<Rightarrow> string option \<Rightarrow> string \<Rightarrow> DoctorDashboard \<Rightarrow> DoctorDashboard" where
  "fetchAppointments db err profile_doctor_id searchDate st =
     (case profile_doctor_id of
        None \<Rightarrow> st
      | Some doctorId \<Rightarrow>
          (case request err (select_doctor_day db doctorId searchDate) of
             Response _ (Some e) \<Rightarrow> st
           | Response None None \<Rightarrow> st\<lparr>appointments := []\<rparr>
           | Response (Some rows) None \<Rightarrow> st\<lparr>appointments := rows\<rparr>))"

definition organizeAppointments :: "DoctorDashboard \<Rightarrow> DoctorDashboard" where
  "organizeAppointments st =
     (let current = find (\<lambda>apt. status apt = in_consultation) (appointments st);
          scheduled_list = take 5 (filter (\<lambda>apt. status apt = scheduled) (appointments st));
          completed_n = length (filter (\<lambda>apt. status apt = completed) (appointments st))
      in st\<lparr>currentAppointment := current, nextAppointments := scheduled_list,
            completedCount := completed_n\<rparr>)"

text \<open>A fetch and the effect that reorganizes the list when it has changed.\<close>

definition refresh ::
  "DataStore \<Rightarrow> string option \<Rightarrow> string option \<Rightarrow> string \<Rightarrow> DoctorDashboard \<Rightarrow> DoctorDashboard" where
  "refresh db err profile_doctor_id searchDate st =
     organizeAppointments (fetchAppointments db err profile_doctor_id searchDate st)"

definition initial_dashboard :: DoctorDashboard where
  "initial_dashboard =
     \<lparr>appointments = [], currentAppointment = None, nextAppointments = [], completedCount = 0,
      selectedForNoShow = None\<rparr>"

definition handleStartConsultation ::
  "DataStore \<Rightarrow> string option \<Rightarrow> string \<Rightarrow> string \<Rightarrow> DataStore" where
  "handleStartConsultation db err now appointmentId =
     update_appointments db err now appointmentId (\<lambda>a. a\<lparr>status := in_consultation\<rparr>)"

definition handleCompleteConsultation ::
  "DoctorDashboard \<Rightarrow> DataStore \<Rightarrow> string option \<Rightarrow> string \<Rightarrow> DataStore" where
  "handleCompleteConsultation st db err now =
     (case currentAppointment st of
        None \<Rightarrow> db
      | Some cur \<Rightarrow> update_appointments db err now (a_id cur) (\<lambda>a. a\<lparr>status := completed\<rparr>))"

definition handleMarkNoShow ::
  "DoctorDashboard \<Rightarrow> DataStore \<Rightarrow> string option \<Rightarrow> string \<Rightarrow> DataStore" where
  "handleMarkNoShow st db err now =
     (case selectedForNoShow st of
        None \<Rightarrow> db
      | Some sel \<Rightarrow> update_appointments db err now (a_id sel) (\<lambda>a. a\<lparr>status := no_show\<rparr>))"

text \<open>
  The "Start Consultation" buttons as rendered: one for each entry of \<open>nextAppointments\<close>,
  as the pair of the id its click starts and its \<^verbatim>\<open>disabled\<close> attribute
  \<^verbatim>\<open>!!currentAppointment\<close>.
\<close>

definition start_buttons :: "DoctorDashboard \<Rightarrow> (string \<times> bool) list" where
  "start_buttons st = map (\<lambda>appointment. (a_id appointment, currentAppointment st \<noteq> None)) (nextAppointments st)"

definition start_enabled :: "DoctorDashboard \<Rightarrow> string \<Rightarrow> bool" where
  "start_enabled st appointmentId = ((appointmentId, False) \<in> set (start_buttons st))"

text \<open>The "Waiting" figure is \<^verbatim>\<open>nextAppointments.length\<close>.\<close>

definition waiting_count :: "DoctorDashboard \<Rightarrow> nat" where
  "waiting_count st = length (nextAppointments st)"

subsection \<open>maskPhone\<close>

text \<open>\<^verbatim>\<open>s.slice(start)\<close>: a negative start counts from the end, and both ends are clamped.\<close>

definition slice_from :: "int \<Rightarrow> string \<Rightarrow> string" where
  "slice_from start s =
     (let len = int (length s);
          k = (if start < 0 then max (len + start) 0 else min start len)
      in drop (nat k) s)"

definition maskPhone :: "string \<Rightarrow> string" where
  "maskPhone phone_str =
     (if phone_str = [] \<or> length phone_str < 4 then phone_str
      else ''***-***-'' @ slice_from (- 4) phone_str)"

text \<open>The call in the queue: \<^verbatim>\<open>maskPhone(appointment.patient?.phone || '')\<close>.\<close>

definition queue_phone :: "Appointment \<Rightarrow> string" where
  "queue_phone appointment =
     maskPhone (case patient appointment of None \<Rightarrow> [] | Some p \<Rightarrow> phone p)"

section \<open>Nurse dashboard (src/pages/NurseDashboard.tsx)\<close>

text \<open>
  The nurse's select: every appointment, in every status, with patient and doctor joined,
  ordered by date and then by time.
\<close>

definition select_all :: "DataStore \<Rightarrow> Appointment list" where
  "select_all db =
     sort_key (\<lambda>a. (appointment_date a, appointment_time a))
       (map (\<lambda>a. join_doctor db (join_patient db a)) (appointments_tbl db))"

definition fetchAppointments_nurse ::
  "DataStore \<Rightarrow> string option \<Rightarrow> Appointment list \<Rightarrow> Appointment list" where
  "fetchAppointments_nurse db err shown =
     (case request err (select_all db) of
        Response _ (Some e) \<Rightarrow> shown
      | Response None None \<Rightarrow> []
      | Response (Some rows) None \<Rightarrow> rows)"

text \<open>\<^verbatim>\<open>toLowerCase\<close> on the letters A to Z; other characters are left as they are.\<close>

definition toLowerCase :: "string \<Rightarrow> string" where
  "toLowerCase s =
     map (\<lambda>c. if CHR ''A'' \<le> c \<and> c \<le> CHR ''Z'' then char_of (of_char c + (32::nat)) else c) s"

text \<open>
  The names the search looks in. A template literal prints a missing patient's fields as
  \<^verbatim>\<open>undefined\<close> and a null last name as \<^verbatim>\<open>null\<close>; a missing doctor has no name to
  search.
\<close>

definition patientName :: "Appointment \<Rightarrow> string" where
  "patientName apt =
     toLowerCase
       (case patient apt of
          None \<Rightarrow> ''undefined undefined''
        | Some p \<Rightarrow> first_name p @ '' '' @ (case last_name p of None \<Rightarrow> ''null'' | Some l \<Rightarrow> l))"

definition doctorName :: "Appointment \<Rightarrow> string option" where
  "doctorName apt = map_option (\<lambda>d. toLowerCase (full_name d)) (doctor apt)"

definition matches_search :: "string \<Rightarrow> Appointment \<Rightarrow> bool" where
  "matches_search searchQuery apt =
     (sublist (toLowerCase searchQuery) (patientName apt) \<or>
      (case doctorName apt of None \<Rightarrow> False | Some n \<Rightarrow> sublist (toLowerCase searchQuery) n))"

text \<open>The list the nurse sees: \<open>filteredAppointments\<close>.\<close>

definition filterAppointments ::
  "Appointment list \<Rightarrow> string \<Rightarrow> string \<Rightarrow> string \<Rightarrow> Appointment list" where
  "filterAppointments appointments_shown selectedDoctor selectedDate searchQuery =
     (let filtered1 = (if selectedDoctor \<noteq> ''all''
                       then filter (\<lambda>apt. doctor_id apt = selectedDoctor) appointments_shown
                       else appointments_shown);
          filtered2 = filter (\<lambda>apt. appointment_date apt = selectedDate) filtered1;
          filtered3 = (if searchQuery \<noteq> [] then filter (matches_search searchQuery) filtered2
                       else filtered2)
      in filtered3)"

definition nurse_list :: "DataStore \<Rightarrow> string \<Rightarrow> string \<Rightarrow> string \<Rightarrow> Appointment list" where
  "nurse_list db selectedDoctor selectedDate searchQuery =
     filterAppointments (fetchAppointments_nurse db None []) selectedDoctor selectedDate searchQuery"

section \<open>Appointment details (AppointmentDetailsModal)\<close>

datatype toast = toast_success string | toast_error string

definition handleCancel :: "DataStore \<Rightarrow> string option \<Rightarrow> string \<Rightarrow> Appointment \<Rightarrow> DataStore \<times> toast" where
  "handleCancel db err now appointment =
     (case err of
        Some e \<Rightarrow> (db, toast_error ''Failed to cancel appointment'')
      | None \<Rightarrow>
          (update_appointments db None now (a_id appointment) (\<lambda>a. a\<lparr>status := cancelled\<rparr>),
           toast_success ''Appointment cancelled successfully''))"

text \<open>What a successful cancel of the appointment with id \<open>i\<close> at time \<open>now\<close> does to a row.\<close>

definition cancel_row :: "string \<Rightarrow> string \<Rightarrow> Appointment \<Rightarrow> Appointment" where
  "cancel_row i now a = (if a_id a = i then a\<lparr>status := cancelled, updated_at := Some now\<rparr> else a)"

text \<open>Whether the message shown reports a failure.\<close>

definition reported_failure :: "toast \<Rightarrow> bool" where
  "reported_failure t = (case t of toast_error m \<Rightarrow> True | toast_success m \<Rightarrow> False)"

subsection \<open>The reschedule webhook\<close>

record HttpRequest =
  url :: string
  http_method :: string
  headers :: "(string \<times> string) list"
  body :: "(string \<times> string) list"

text \<open>
  The body is the payload object as the list of its fields in the order they are written;
  \<^verbatim>\<open>JSON.stringify\<close> prints them in that order. The network is a function from the
  request to what \<^verbatim>\<open>fetch\<close> does with it: \<open>Inl e\<close> when it throws, \<open>Inr code\<close> when a
  response with that status code arrives. \<^verbatim>\<open>response.ok\<close> holds for the codes 200 to 299.
\<close>

definition response_ok :: "nat \<Rightarrow> bool" where
  "response_ok code = (200 \<le> code \<and> code \<le> 299)"

definition or_empty :: "string option \<Rightarrow> string" where
  "or_empty v = (case v of None \<Rightarrow> [] | Some s \<Rightarrow> s)"

definition reschedule_payload :: "Appointment \<Rightarrow> Patient \<Rightarrow> Doctor \<Rightarrow> (string \<times> string) list" where
  "reschedule_payload appointment p d =
     [(''doctor_name'', full_name d),
      (''patient_first_name'', first_name p),
      (''patient_last_name'', or_empty (last_name p)),
      (''appointment_date'', appointment_date appointment),
      (''appointment_time'', appointment_time appointment)]"

text \<open>The result: the requests sent, in order, and the message shown.\<close>

definition handleRequestReschedule ::
  "(HttpRequest \<Rightarrow> string + nat) \<Rightarrow> Appointment \<Rightarrow> HttpRequest list \<times> toast" where
  "handleRequestReschedule fetch appointment =
     (case (patient appointment, doctor appointment) of
        (Some p, Some d) \<Rightarrow>
          (let req = \<lparr>url = ''https://n8n.maxgrow.pro/webhook/emergency'', http_method = ''POST'',
                      headers = [(''Content-Type'', ''application/json'')],
                      body = reschedule_payload appointment p d\<rparr>
           in (case fetch req of
                 Inl e \<Rightarrow> ([req], toast_error ''Failed to send reschedule request'')
               | Inr code \<Rightarrow>
                   if \<not> response_ok code
                   then ([req], toast_error ''Failed to send reschedule request'')
                   else ([req], toast_success ''Reschedule request sent to patient via Telegram'')))
      | _ \<Rightarrow> ([], toast_error ''Missing patient or doctor information''))"

section \<open>The forms' submit handlers\<close>

subsection \<open>CreateAppointmentForm.handleSubmit\<close>

record NewPatientData =
  np_first_name :: string
  np_last_name :: string
  np_phone :: string
  np_age :: string

text \<open>The form's state; \<open>c_date\<close> is the picked date, already written \<^verbatim>\<open>yyyy-MM-dd\<close>.\<close>

record CreateForm =
  c_selectedDoctor :: string
  c_selectedPatient :: string
  c_date :: "string option"
  c_time :: string
  c_complaint :: string
  isNewPatient :: bool
  newPatientData :: NewPatientData

text \<open>
  What the store decides during one submit: the error of each of the three requests (if
  any), the primary keys it gives the inserted rows, and the value its column defaults
  give \<^verbatim>\<open>created_at\<close> and \<^verbatim>\<open>updated_at\<close> of a new appointment (the table's
  definition is not part of the sources).
\<close>

record CreateReplies =
  err_patient :: "string option"
  new_patient_id :: string
  err_check :: "string option"
  err_insert :: "string option"
  new_appointment_id :: string
  stamp :: "string option"

text \<open>
  \<^verbatim>\<open>parseInt\<close> on the value of a number input: the leading run of decimal digits, \<^verbatim>\<open>NaN\<close>
  (stored as null) when there is none. Signs and leading white space are outside the model.
\<close>

definition parseInt :: "string \<Rightarrow> int option" where
  "parseInt s = (let ds = takeWhile is_digit s in if ds = [] then None else Number ds)"

definition new_patient_row :: "string \<Rightarrow> NewPatientData \<Rightarrow> Patient" where
  "new_patient_row new_id np =
     \<lparr>p_id = new_id, first_name = np_first_name np, last_name = Some (np_last_name np),
      phone = np_phone np, p_telegram_id = None,
      age = (if np_age np \<noteq> [] then parseInt (np_age np) else None)\<rparr>"

definition new_appointment_row ::
  "CreateReplies \<Rightarrow> string \<Rightarrow> string \<Rightarrow> string \<Rightarrow> string \<Rightarrow> string \<Rightarrow> Appointment" where
  "new_appointment_row r patientId selectedDoctor appointmentDate time_str complaint_str =
     \<lparr>a_id = new_appointment_id r, patient_id = patientId, doctor_id = selectedDoctor,
      appointment_date = appointmentDate, appointment_time = time_str,
      complaint = Some complaint_str, status = scheduled, a_telegram_id = None,
      created_at = stamp r, updated_at = stamp r, patient = None, doctor = None\<rparr>"

definition handleSubmit_create :: "DataStore \<Rightarrow> CreateReplies \<Rightarrow> CreateForm \<Rightarrow> DataStore \<times> toast" where
  "handleSubmit_create db r f =
     (case c_date f of
        None \<Rightarrow> (db, toast_error ''Please fill in all required fields'')
      | Some appointmentDate \<Rightarrow>
          if c_selectedDoctor f = [] \<or> c_time f = [] \<or> c_complaint f = []
          then (db, toast_error ''Please fill in all required fields'')
          else if isNewPatient f \<and>
                  (np_first_name (newPatientData f) = [] \<or> np_phone (newPatientData f) = [])
          then (db, toast_error ''Please fill in patient name and phone'')
          else if isNewPatient f \<and> err_patient r \<noteq> None
          then (db, toast_error ''Failed to create appointment'')
          else
            (let db1 = (if isNewPatient f
                        then db\<lparr>patients_tbl :=
                                  patients_tbl db @ [new_patient_row (new_patient_id r) (newPatientData f)]\<rparr>
                        else db);
                 patientId = (if isNewPatient f then new_patient_id r else c_selectedPatient f)
             in if patientId = [] then (db1, toast_error ''Please select a patient'')
                else (case checkTimeConflict db1 (err_check r) (c_selectedDoctor f) appointmentDate (c_time f) of
                        Inl e \<Rightarrow> (db1, toast_error ''Failed to create appointment'')
                      | Inr True \<Rightarrow>
                          (db1, toast_error ''Time conflict: This doctor already has an appointment within 30 minutes of this time'')
                      | Inr False \<Rightarrow>
                          (case err_insert r of
                             Some e \<Rightarrow> (db1, toast_error ''Failed to create appointment'')
                           | None \<Rightarrow>
                               (db1\<lparr>appointments_tbl :=
                                      appointments_tbl db1 @
                                      [new_appointment_row r patientId (c_selectedDoctor f)
                                         appointmentDate (c_time f) (c_complaint f)]\<rparr>,
                                toast_success ''Appointment created successfully'')))))"

subsection \<open>EditAppointmentForm.handleSubmit\<close>

record EditForm =
  e_appointment :: "Appointment option"
  e_selectedDoctor :: string
  e_date :: "string option"
  e_time :: string
  e_status :: AppointmentStatus

definition handleSubmit_edit ::
  "DataStore \<Rightarrow> string option \<Rightarrow> string option \<Rightarrow> string \<Rightarrow> EditForm \<Rightarrow> DataStore \<times> toast" where
  "handleSubmit_edit db err_chk err_upd now f =
     (case (e_appointment f, e_date f) of
        (Some appointment, Some appointmentDate) \<Rightarrow>
          if e_selectedDoctor f = [] \<or> e_time f = []
          then (db, toast_error ''Please fill in all required fields'')
          else (case checkTimeConflict_edit db err_chk (e_selectedDoctor f) appointmentDate (e_time f)
                       (a_id appointment) of
                  Inl e \<Rightarrow> (db, toast_error ''Failed to update appointment'')
                | Inr True \<Rightarrow>
                    (db, toast_error ''Time conflict: This doctor already has an appointment within 30 minutes of this time'')
                | Inr False \<Rightarrow>
                    (case err_upd of
                       Some e \<Rightarrow> (db, toast_error ''Failed to update appointment'')
                     | None \<Rightarrow>
                         (update_appointments db None now (a_id appointment)
                            (\<lambda>a. a\<lparr>doctor_id := e_selectedDoctor f, appointment_date := appointmentDate,
                                   appointment_time := e_time f, status := e_status f\<rparr>),
                          toast_success ''Appointment updated successfully'')))
      | _ \<Rightarrow> (db, toast_error ''Please fill in all required fields''))"

section \<open>The store under the application's actions\<close>

text \<open>
  The user actions that write appointments, each with what the store and the clock decide.
  An action is taken on the current store: the read of a check and the write after it are
  not interleaved with another action. The dashboard of a doctor's action is the state on
  the doctor's screen, which may show an earlier store (a fetch that failed leaves the list
  as it was).
\<close>

datatype action =
    Create CreateReplies CreateForm
  | Edit "string option" "string option" string EditForm
  | Start DoctorDashboard "string option" string string
  | Complete DoctorDashboard "string option" string
  | NoShow DoctorDashboard "string option" string
  | Cancel "string option" string Appointment

text \<open>
  \<open>step\<close> is \<open>None\<close> where the action cannot happen: the store gives a new row a primary
  key no row has, and a consultation is started by clicking a start button that the
  dashboard on screen shows enabled (\<open>Start st err now appointmentId\<close>). The handler
  itself updates by id and reads nothing from the store.
\<close>

fun step :: "DataStore \<Rightarrow> action \<Rightarrow> DataStore option" where
  "step db (Create r f) =
     (if new_appointment_id r \<in> set (map a_id (appointments_tbl db)) then None
      else Some (fst (handleSubmit_create db r f)))"
| "step db (Edit err_chk err_upd now f) = Some (fst (handleSubmit_edit db err_chk err_upd now f))"
| "step db (Start st err now appointmentId) =
     (if start_enabled st appointmentId
      then Some (handleStartConsultation db err now appointmentId)
      else None)"
| "step db (Complete st err now) = Some (handleCompleteConsultation st db err now)"
| "step db (NoShow st err now) = Some (handleMarkNoShow st db err now)"
| "step db (Cancel err now appointment) = Some (fst (handleCancel db err now appointment))"

fun run :: "DataStore \<Rightarrow> action list \<Rightarrow> DataStore option" where
  "run db [] = Some db"
| "run db (act # acts) = (case step db act of None \<Rightarrow> None | Some db' \<Rightarrow> run db' acts)"

text \<open>
  The appointment a start is for is still active in the store (scheduled, or already in
  consultation): no row with its id is completed, cancelled or no-show. A dashboard that
  shows the current store offers the start only for such appointments.
\<close>

definition still_active :: "DataStore \<Rightarrow> string \<Rightarrow> bool" where
  "still_active db appointmentId =
     (\<forall>a \<in> set (appointments_tbl db). a_id a = appointmentId \<longrightarrow> is_active (status a))"

definition start_on_active :: "DataStore \<Rightarrow> action \<Rightarrow> bool" where
  "start_on_active db act =
     (case act of Start st err now appointmentId \<Rightarrow> still_active db appointmentId | _ \<Rightarrow> True)"

text \<open>Every start of a run is for an appointment still active in the store it is taken on.\<close>

fun starts_on_active :: "DataStore \<Rightarrow> action list \<Rightarrow> bool" where
  "starts_on_active db [] = True"
| "starts_on_active db (act # acts) =
     (start_on_active db act \<and>
      (case step db act of None \<Rightarrow> True | Some db' \<Rightarrow> starts_on_active db' acts))"

text \<open>Two appointments of one doctor on one date whose times are less than 30 minutes apart.\<close>

definition clash :: "Appointment \<Rightarrow> Appointment \<Rightarrow> bool" where
  "clash a b =
     (doctor_id a = doctor_id b \<and> appointment_date a = appointment_date b \<and>
      within_30 (appointment_time a) (appointment_time b))"

text \<open>No two appointments whose statuses both count clash.\<close>

definition no_double_booking :: "(AppointmentStatus \<Rightarrow> bool) \<Rightarrow> DataStore \<Rightarrow> bool" where
  "no_double_booking counts db =
     (\<forall>a \<in> set (appointments_tbl db). \<forall>b \<in> set (appointments_tbl db).
        a_id a \<noteq> a_id b \<and> counts (status a) \<and> counts (status b) \<longrightarrow> \<not> clash a b)"

definition not_cancelled_or_no_show :: "AppointmentStatus \<Rightarrow> bool" where
  "not_cancelled_or_no_show s = (s \<noteq> cancelled \<and> s \<noteq> no_show)"

text \<open>
  The invariant the checks maintain: primary keys are distinct and no two active
  appointments clash.
\<close>

definition store_inv :: "DataStore \<Rightarrow> bool" where
  "store_inv db = (distinct (map a_id (appointments_tbl db)) \<and> no_double_booking is_active db)"

section \<open>Example stores\<close>

definition appt :: "string \<Rightarrow> string \<Rightarrow> string \<Rightarrow> string \<Rightarrow> AppointmentStatus \<Rightarrow> Appointment" where
  "appt i d day t s =
     \<lparr>a_id = i, patient_id = ''p1'', doctor_id = d, appointment_date = day, appointment_time = t,
      complaint = Some ''cough'', status = s, a_telegram_id = None, created_at = None,
      updated_at = None, patient = None, doctor = None\<rparr>"

definition store_of :: "Appointment list \<Rightarrow> DataStore" where
  "store_of rows =
     \<lparr>appointments_tbl = rows,
      patients_tbl = [\<lparr>p_id = ''p1'', first_name = ''Ana'', last_name = Some ''Silva'',
                       phone = ''5551234567'', p_telegram_id = None, age = Some 41\<rparr>],
      doctors_tbl = [\<lparr>d_id = ''d1'', d_email = ''d1@clinic.example'', full_name = ''Dr. Costa'',
                      specialty = None\<rparr>]\<rparr>"

text \<open>Doctor d1 with active appointments at 09:00 and 09:20 on one day.\<close>

definition store_0900_0920 :: DataStore where
  "store_0900_0920 =
     store_of [appt ''a1'' ''d1'' ''2025-03-10'' ''09:00'' scheduled,
               appt ''a2'' ''d1'' ''2025-03-10'' ''09:20'' in_consultation]"

text \<open>
  Doctor d1 in consultation at 09:20 and booked at 10:05, with a cancelled appointment at
  10:40, another doctor's at 10:30 and one on the next day; times as a time column gives them.
\<close>

definition store_mixed_day :: DataStore where
  "store_mixed_day =
     store_of [appt ''a1'' ''d1'' ''2025-03-10'' ''09:20:00'' in_consultation,
               appt ''a2'' ''d1'' ''2025-03-10'' ''10:05:00'' scheduled,
               appt ''a3'' ''d1'' ''2025-03-10'' ''10:40:00'' cancelled,
               appt ''a4'' ''d2'' ''2025-03-10'' ''10:30:00'' scheduled,
               appt ''a5'' ''d1'' ''2025-03-11'' ''10:30:00'' scheduled]"

text \<open>Doctor d1 with appointments at 09:00 and 10:00 on one day.\<close>

definition store_0900_1000 :: DataStore where
  "store_0900_1000 =
     store_of [appt ''a1'' ''d1'' ''2025-03-10'' ''09:00'' scheduled,
               appt ''a2'' ''d1'' ''2025-03-10'' ''10:00'' scheduled]"

text \<open>Seven scheduled appointments of doctor d1 on one day, stored out of order.\<close>

definition store_busy_day :: DataStore where
  "store_busy_day =
     store_of [appt ''a6'' ''d1'' ''2025-03-10'' ''14:00:00'' scheduled,
               appt ''a2'' ''d1'' ''2025-03-10'' ''10:00:00'' scheduled,
               appt ''a1'' ''d1'' ''2025-03-10'' ''09:00:00'' scheduled,
               appt ''a7'' ''d1'' ''2025-03-10'' ''15:00:00'' scheduled,
               appt ''a3'' ''d1'' ''2025-03-10'' ''11:00:00'' scheduled,
               appt ''a5'' ''d1'' ''2025-03-10'' ''13:00:00'' scheduled,
               appt ''a4'' ''d1'' ''2025-03-10'' ''12:00:00'' scheduled]"

text \<open>A consultation under way at 09:00 and a patient waiting for 10:00.\<close>

definition store_in_consultation :: DataStore where
  "store_in_consultation =
     store_of [appt ''a1'' ''d1'' ''2025-03-10'' ''09:00:00'' in_consultation,
               appt ''a2'' ''d1'' ''2025-03-10'' ''10:00:00'' scheduled]"

definition patient_no_last_name :: Patient where
  "patient_no_last_name =
     \<lparr>p_id = ''p2'', first_name = ''Rui'', last_name = None, phone = ''5551234567'',
      p_telegram_id = None, age = None\<rparr>"

definition doctor_costa :: Doctor where
  "doctor_costa =
     \<lparr>d_id = ''d1'', d_email = ''d1@clinic.example'', full_name = ''Dr. Costa'', specialty = None\<rparr>"

text \<open>An appointment as the nurse's list holds it, with patient and doctor joined.\<close>

definition appt_joined :: Appointment where
  "appt_joined =
     (appt ''a1'' ''d1'' ''2025-03-10'' ''09:00'' scheduled)
       \<lparr>patient := Some patient_no_last_name, doctor := Some doctor_costa\<rparr>"

text \<open>Forms, store replies and runs of actions on a store without appointments.\<close>

definition store_empty :: DataStore where
  "store_empty = store_of []"

definition create_replies :: "string \<Rightarrow> CreateReplies" where
  "create_replies i =
     \<lparr>err_patient = None, new_patient_id = [], err_check = None, err_insert = None,
      new_appointment_id = i, stamp = Some ''2025-03-01T08:00:00Z''\<rparr>"

definition create_form :: "string \<Rightarrow> CreateForm" where
  "create_form t =
     \<lparr>c_selectedDoctor = ''d1'', c_selectedPatient = ''p1'', c_date = Some ''2025-03-10'',
      c_time = t, c_complaint = ''cough'', isNewPatient = False,
      newPatientData = \<lparr>np_first_name = [], np_last_name = [], np_phone = [], np_age = []\<rparr>\<rparr>"

definition store_booked :: DataStore where
  "store_booked = fst (handleSubmit_create store_empty (create_replies ''a1'') (create_form ''09:00''))"

text \<open>The doctor's dashboard as fetched when only a1 (09:00) is booked.\<close>

definition dashboard_booked :: DoctorDashboard where
  "dashboard_booked = refresh store_booked None (Some ''d1'') ''2025-03-10'' initial_dashboard"

definition store_consulting :: DataStore where
  "store_consulting = handleStartConsultation store_booked None ''2025-03-10T09:00:00Z'' ''a1''"

definition completed_then_booked :: "action list" where
  "completed_then_booked =
     [Create (create_replies ''a1'') (create_form ''09:00''),
      Start dashboard_booked None ''2025-03-10T09:00:00Z'' ''a1'',
      Complete (refresh store_consulting None (Some ''d1'') ''2025-03-10'' initial_dashboard)
        None ''2025-03-10T09:05:00Z'',
      Create (create_replies ''a2'') (create_form ''09:10'')]"

definition edit_form :: "string \<Rightarrow> string \<Rightarrow> EditForm" where
  "edit_form i t =
     \<lparr>e_appointment = Some (appt i ''d1'' ''2025-03-10'' ''09:30'' scheduled),
      e_selectedDoctor = ''d1'', e_date = Some ''2025-03-10'', e_time = t, e_status = scheduled\<rparr>"

definition checked_bookings :: "action list" where
  "checked_bookings =
     [Create (create_replies ''a1'') (create_form ''09:00''),
      Start dashboard_booked None ''2025-03-10T09:00:00Z'' ''a1'',
      Create (create_replies ''a2'') (create_form ''09:10''),
      Create (create_replies ''a3'') (create_form ''09:30''),
      Edit None None ''2025-03-02T08:00:00Z'' (edit_form ''a3'' ''09:20''),
      Edit None None ''2025-03-02T08:05:00Z'' (edit_form ''a3'' ''09:45'')]"

text \<open>
  A start from a dashboard that shows an earlier store: a1 is booked and the dashboard
  fetched, then a1 is cancelled and a2 booked at the same time, then a1 is started from
  the dashboard as it was.
\<close>

definition stale_start :: "action list" where
  "stale_start =
     [Create (create_replies ''a1'') (create_form ''09:00''),
      Cancel None ''2025-03-09T17:00:00Z'' (appt ''a1'' ''d1'' ''2025-03-10'' ''09:00'' scheduled),
      Create (create_replies ''a2'') (create_form ''09:00''),
      Start dashboard_booked None ''2025-03-10T09:00:00Z'' ''a1'']"

section \<open>Properties of the conflict checker\<close>

lemma conflict_loop_iff:
  "conflict_loop (timeToMinutes t) ts = (\<exists>u \<in> set ts. within_30 t u)"
  by (induction ts)
    (auto simp: within_30_def minutes_apart_def js_less_def js_abs_def js_sub_def Let_def
      split: option.splits)

lemma checkTimeConflict_select:
  "checkTimeConflict db None doctorId appointmentDate appointmentTime =
     Inr (\<exists>u \<in> set (select_times db doctorId appointmentDate). within_30 appointmentTime u)"
  by (cases "select_times db doctorId appointmentDate")
    (simp_all add: checkTimeConflict_def request_def conflict_loop_iff del: conflict_loop.simps)

lemma checkTimeConflict_edit_select:
  "checkTimeConflict_edit db None doctorId appointmentDate appointmentTime cid =
     Inr (\<exists>u \<in> set (select_times_except db doctorId appointmentDate cid). within_30 appointmentTime u)"
  by (cases "select_times_except db doctorId appointmentDate cid")
    (simp_all add: checkTimeConflict_edit_def request_def conflict_loop_iff del: conflict_loop.simps)

lemma checkTimeConflict_throws:
  "checkTimeConflict db (Some e) doctorId appointmentDate appointmentTime = Inl e"
  "checkTimeConflict_edit db (Some e) doctorId appointmentDate appointmentTime cid = Inl e"
  by (simp_all add: checkTimeConflict_def checkTimeConflict_edit_def request_def)

lemma within_30_minutes:
  "timeToMinutes t = Some m \<Longrightarrow> timeToMinutes u = Some n \<Longrightarrow> within_30 t u = (\<bar>m - n\<bar> < 30)"
  by (simp add: within_30_def minutes_apart_def)

lemma within_30_sym: "within_30 t u = within_30 u t"
  by (auto simp: within_30_def minutes_apart_def split: option.splits)

text \<open>A time written \<^verbatim>\<open>HH:MM\<close> converts to its minutes since midnight.\<close>

lemma timeToMinutes_hh_mm:
  assumes "is_digit h1" "is_digit h2" "is_digit m1" "is_digit m2"
  shows "timeToMinutes [h1, h2, CHR '':'', m1, m2] =
           Some ((10 * digit_val h1 + digit_val h2) * 60 + (10 * digit_val m1 + digit_val m2))"
  using assms by (auto simp: timeToMinutes_def Number_def is_digit_def)

lemma timeToMinutes_examples:
  "timeToMinutes ''09:00'' = Some 540" "timeToMinutes ''09:15'' = Some 555"
  "timeToMinutes ''09:20'' = Some 560" "timeToMinutes ''09:35'' = Some 575"
  "timeToMinutes ''09:50'' = Some 590" "timeToMinutes ''09:10'' = Some 550"
  "timeToMinutes ''09:30'' = Some 570" "timeToMinutes ''10:00'' = Some 600"
  by (simp_all add: timeToMinutes_def Number_def is_digit_def digit_val_def)

lemma decimal_digit_is_digit: "decimal_digit c \<Longrightarrow> is_digit c \<and> c \<noteq> CHR '':''"
  by (auto simp: decimal_digit_def is_digit_def)

lemma time_string_shape:
  assumes "is_time_string t"
  obtains h1 h2 m1 m2 where "t = [h1, h2, CHR '':'', m1, m2]"
      "decimal_digit h1" "decimal_digit h2" "decimal_digit m1" "decimal_digit m2"
  | h1 h2 m1 m2 s1 s2 where "t = [h1, h2, CHR '':'', m1, m2, CHR '':'', s1, s2]"
      "decimal_digit h1" "decimal_digit h2" "decimal_digit m1" "decimal_digit m2"
      "decimal_digit s1" "decimal_digit s2"
proof -
  from assms consider "length t = 5" | "length t = 8" by (auto simp: is_time_string_def)
  then show thesis
  proof cases
    case 1
    then obtain h1 h2 c m1 m2 where t: "t = [h1, h2, c, m1, m2]"
      by (auto simp: eval_nat_numeral length_Suc_conv)
    with assms show thesis by (intro that(1) [of h1 h2 m1 m2]) (simp_all add: is_time_string_def)
  next
    case 2
    then obtain h1 h2 c m1 m2 c' s1 s2 where t: "t = [h1, h2, c, m1, m2, c', s1, s2]"
      by (auto simp: eval_nat_numeral length_Suc_conv)
    with assms show thesis
      by (intro that(2) [of h1 h2 m1 m2 s1 s2]) (simp_all add: is_time_string_def eval_nat_numeral)
  qed
qed

lemma timeToMinutes_time_string:
  assumes "is_time_string t"
  shows "timeToMinutes t = Some (minutes_since_midnight t)"
  using assms
proof (cases rule: time_string_shape)
  case (1 h1 h2 m1 m2)
  then show ?thesis
    using decimal_digit_is_digit [of h1] decimal_digit_is_digit [of h2]
      decimal_digit_is_digit [of m1] decimal_digit_is_digit [of m2]
    by (simp add: timeToMinutes_def Number_def minutes_since_midnight_def two_digits_def digit_val_def)
next
  case (2 h1 h2 m1 m2 s1 s2)
  then show ?thesis
    using decimal_digit_is_digit [of h1] decimal_digit_is_digit [of h2]
      decimal_digit_is_digit [of m1] decimal_digit_is_digit [of m2]
      decimal_digit_is_digit [of s1] decimal_digit_is_digit [of s2]
    by (simp add: timeToMinutes_def Number_def minutes_since_midnight_def two_digits_def digit_val_def
        eval_nat_numeral)
qed

text \<open>
  Claim C1. For every doctor and date, with the candidate time and the stored times of
  that doctor's active appointments of the date written as times (\<^verbatim>\<open>HH:MM\<close> or
  \<^verbatim>\<open>HH:MM:SS\<close>), the create form's conflict check (its select having succeeded) answers
  "conflict" exactly when some appointment of that doctor on that date with status scheduled
  or in_consultation has a time whose minutes since midnight differ from the candidate's by
  strictly less than 30 in absolute value; so it answers "no conflict" when every such
  difference is at least 30 and when there is no such appointment.
\<close>

theorem C1_conflict_iff_within_30:
  assumes "is_time_string appointmentTime"
    and "\<forall>a \<in> set (appointments_tbl db).
           doctor_id a = doctorId \<and> appointment_date a = appointmentDate \<and>
           (status a = scheduled \<or> status a = in_consultation) \<longrightarrow>
           is_time_string (appointment_time a)"
  shows "checkTimeConflict db None doctorId appointmentDate appointmentTime =
     Inr (\<exists>a \<in> set (appointments_tbl db).
            doctor_id a = doctorId \<and> appointment_date a = appointmentDate \<and>
            (status a = scheduled \<or> status a = in_consultation) \<and>
            \<bar>minutes_since_midnight appointmentTime - minutes_since_midnight (appointment_time a)\<bar> < 30)"
proof -
  have w: "within_30 appointmentTime (appointment_time a) =
      (\<bar>minutes_since_midnight appointmentTime - minutes_since_midnight (appointment_time a)\<bar> < 30)"
    if "is_time_string (appointment_time a)" for a
    using assms(1) that by (simp add: within_30_minutes timeToMinutes_time_string)
  have "(\<exists>u \<in> set (select_times db doctorId appointmentDate). within_30 appointmentTime u) =
      (\<exists>a \<in> set (appointments_tbl db).
            doctor_id a = doctorId \<and> appointment_date a = appointmentDate \<and>
            (status a = scheduled \<or> status a = in_consultation) \<and>
            \<bar>minutes_since_midnight appointmentTime - minutes_since_midnight (appointment_time a)\<bar> < 30)"
    using assms(2) w by (auto simp: select_times_def)
  then show ?thesis
    unfolding checkTimeConflict_select by simp
qed

theorem C1_witness:
  "checkTimeConflict store_mixed_day None ''d1'' ''2025-03-10'' ''09:49'' = Inr True \<and>
   checkTimeConflict store_mixed_day None ''d1'' ''2025-03-10'' ''09:50'' = Inr True \<and>
   checkTimeConflict store_mixed_day None ''d1'' ''2025-03-10'' ''10:35'' = Inr False \<and>
   minutes_since_midnight ''09:20:00'' = 560 \<and> minutes_since_midnight ''10:35'' = 635"
proof -
  have v: "is_time_string ''09:49''" "is_time_string ''09:50''" "is_time_string ''10:35''"
    by (simp_all add: is_time_string_def decimal_digit_def)
  have s: "\<forall>a \<in> set (appointments_tbl store_mixed_day).
           doctor_id a = ''d1'' \<and> appointment_date a = ''2025-03-10'' \<and>
           (status a = scheduled \<or> status a = in_consultation) \<longrightarrow>
           is_time_string (appointment_time a)"
    by (simp add: store_mixed_day_def store_of_def appt_def is_time_string_def decimal_digit_def)
  show ?thesis
    using C1_conflict_iff_within_30 [OF v(1) s] C1_conflict_iff_within_30 [OF v(2) s]
      C1_conflict_iff_within_30 [OF v(3) s]
    by (simp add: store_mixed_day_def store_of_def appt_def minutes_since_midnight_def
        two_digits_def)
qed

text \<open>
  Claim C3 as stated fails: with active appointments at 09:00 and 09:20, the check does
  reject 09:15, but it does not accept 09:35, which is 15 minutes after 09:20.
\<close>

theorem C3_counterexample:
  "\<not> (checkTimeConflict store_0900_0920 None ''d1'' ''2025-03-10'' ''09:15'' = Inr True \<and>
      checkTimeConflict store_0900_0920 None ''d1'' ''2025-03-10'' ''09:35'' = Inr False)"
  by (simp add: checkTimeConflict_select select_times_def store_0900_0920_def store_of_def appt_def
      within_30_minutes timeToMinutes_examples)

text \<open>
  Claim C3, amended. When doctor D has active appointments at 09:00 and 09:20 on the same
  day, the conflict checker rejects creating a third appointment for D that day at 09:15
  and also at 09:35; when D has no other active appointment that day it accepts one at
  09:50.
\<close>

theorem C3_0915_and_0935_rejected:
  assumes "a1 \<in> set (appointments_tbl db)" "doctor_id a1 = D" "appointment_date a1 = day"
      "is_active (status a1)" "timeToMinutes (appointment_time a1) = Some (9 * 60)"
    and "a2 \<in> set (appointments_tbl db)" "doctor_id a2 = D" "appointment_date a2 = day"
      "is_active (status a2)" "timeToMinutes (appointment_time a2) = Some (9 * 60 + 20)"
  shows "checkTimeConflict db None D day ''09:15'' = Inr True \<and>
         checkTimeConflict db None D day ''09:35'' = Inr True \<and>
         ((\<forall>a \<in> set (appointments_tbl db).
              doctor_id a = D \<and> appointment_date a = day \<and> is_active (status a) \<longrightarrow>
              appointment_time a = appointment_time a1 \<or> appointment_time a = appointment_time a2)
          \<longrightarrow> checkTimeConflict db None D day ''09:50'' = Inr False)"
proof -
  have t1: "appointment_time a1 \<in> set (select_times db D day)"
    using assms(1-4) by (force simp: select_times_def is_active_def)
  have t2: "appointment_time a2 \<in> set (select_times db D day)"
    using assms(6-9) by (force simp: select_times_def is_active_def)
  have w1: "within_30 ''09:15'' (appointment_time a1)"
    using assms(5) by (simp add: within_30_minutes timeToMinutes_examples)
  have w2: "within_30 ''09:35'' (appointment_time a2)"
    using assms(10) by (simp add: within_30_minutes timeToMinutes_examples)
  have n1: "\<not> within_30 ''09:50'' (appointment_time a1)"
    using assms(5) by (simp add: within_30_minutes timeToMinutes_examples)
  have n2: "\<not> within_30 ''09:50'' (appointment_time a2)"
    using assms(10) by (simp add: within_30_minutes timeToMinutes_examples)
  have "checkTimeConflict db None D day ''09:15'' = Inr True"
    unfolding checkTimeConflict_select using t1 w1 by blast
  moreover have "checkTimeConflict db None D day ''09:35'' = Inr True"
    unfolding checkTimeConflict_select using t2 w2 by blast
  moreover have "checkTimeConflict db None D day ''09:50'' = Inr False"
    if "\<forall>a \<in> set (appointments_tbl db).
              doctor_id a = D \<and> appointment_date a = day \<and> is_active (status a) \<longrightarrow>
              appointment_time a = appointment_time a1 \<or> appointment_time a = appointment_time a2"
  proof -
    have "u = appointment_time a1 \<or> u = appointment_time a2" if "u \<in> set (select_times db D day)" for u
      using that \<open>\<forall>a \<in> set (appointments_tbl db). _\<close>
      by (auto simp: select_times_def is_active_def)
    then show ?thesis
      unfolding checkTimeConflict_select using n1 n2 by auto
  qed
  ultimately show ?thesis by blast
qed

theorem C3_witness:
  "checkTimeConflict store_0900_0920 None ''d1'' ''2025-03-10'' ''09:15'' = Inr True \<and>
   checkTimeConflict store_0900_0920 None ''d1'' ''2025-03-10'' ''09:35'' = Inr True \<and>
   checkTimeConflict store_0900_0920 None ''d1'' ''2025-03-10'' ''09:50'' = Inr False"
  using C3_0915_and_0935_rejected [of "appt ''a1'' ''d1'' ''2025-03-10'' ''09:00'' scheduled"
      store_0900_0920 "''d1''" "''2025-03-10''"
      "appt ''a2'' ''d1'' ''2025-03-10'' ''09:20'' in_consultation"]
  by (simp add: store_0900_0920_def store_of_def appt_def is_active_def timeToMinutes_examples)

text \<open>
  Claim C4 as stated fails in its last clause. After the 09:00 appointment a1 is completed
  and a2 is booked at 09:10 for the same doctor and date, re-saving a1 with its own doctor,
  date and time is flagged: a1 is left out of the comparison, but a2 is 10 minutes away.
\<close>

theorem C4_counterexample:
  "map_option
     (\<lambda>db. (map (\<lambda>a. (a_id a, doctor_id a, appointment_date a, appointment_time a, status a))
              (appointments_tbl db),
            checkTimeConflict_edit db None ''d1'' ''2025-03-10'' ''09:00'' ''a1''))
     (run store_empty completed_then_booked)
   = Some ([(''a1'', ''d1'', ''2025-03-10'', ''09:00'', completed),
            (''a2'', ''d1'', ''2025-03-10'', ''09:10'', scheduled)], Inr True)"
  by code_simp

text \<open>
  Claim C4, amended. The edit form's check is the create form's check on the store without
  the appointment being edited: the rows with the excluded id are removed before the
  30-minute comparison, so the check never reports a conflict caused by the edited
  appointment; re-saving an appointment with its own doctor, date and time is not flagged
  unless another active appointment of that doctor and date is within 30 minutes of it.
\<close>

theorem C4_edit_check_excludes_edited:
  "checkTimeConflict_edit db None doctorId appointmentDate appointmentTime currentAppointmentId =
     checkTimeConflict
       (db\<lparr>appointments_tbl := filter (\<lambda>a. a_id a \<noteq> currentAppointmentId) (appointments_tbl db)\<rparr>)
       None doctorId appointmentDate appointmentTime \<and>
   ((\<forall>b \<in> set (appointments_tbl db).
       a_id b \<noteq> currentAppointmentId \<and> doctor_id b = doctorId \<and>
       appointment_date b = appointmentDate \<and> is_active (status b) \<longrightarrow>
       \<not> within_30 appointmentTime (appointment_time b))
    \<longrightarrow> checkTimeConflict_edit db None doctorId appointmentDate appointmentTime currentAppointmentId
          = Inr False)"
proof -
  have sel: "select_times_except db doctorId appointmentDate currentAppointmentId =
      select_times
        (db\<lparr>appointments_tbl := filter (\<lambda>a. a_id a \<noteq> currentAppointmentId) (appointments_tbl db)\<rparr>)
        doctorId appointmentDate"
    by (simp add: select_times_except_def select_times_def conj_commute conj_left_commute)
  show ?thesis
    unfolding checkTimeConflict_edit_select checkTimeConflict_select sel [symmetric]
    by (auto simp: select_times_except_def is_active_def)
qed

theorem C4_witness:
  "checkTimeConflict_edit store_0900_1000 None ''d1'' ''2025-03-10'' ''09:00'' ''a1'' = Inr False \<and>
   checkTimeConflict store_0900_1000 None ''d1'' ''2025-03-10'' ''09:00'' = Inr True"
  using C4_edit_check_excludes_edited [of store_0900_1000 "''d1''" "''2025-03-10''" "''09:00''" "''a1''"]
  by (simp add: checkTimeConflict_select select_times_def store_0900_1000_def store_of_def appt_def
      is_active_def within_30_minutes timeToMinutes_examples)

section \<open>Properties of the doctor dashboard\<close>

lemma refresh_fields:
  "appointments (refresh db None (Some d) day st) = select_doctor_day db d day"
  "currentAppointment (refresh db None (Some d) day st) =
     find (\<lambda>apt. status apt = in_consultation) (select_doctor_day db d day)"
  "nextAppointments (refresh db None (Some d) day st) =
     take 5 (filter (\<lambda>apt. status apt = scheduled) (select_doctor_day db d day))"
  "completedCount (refresh db None (Some d) day st) =
     length (filter (\<lambda>apt. status apt = completed) (select_doctor_day db d day))"
  by (simp_all add: refresh_def fetchAppointments_def request_def organizeAppointments_def Let_def)

lemma sorted_select_doctor_day: "sorted (map appointment_time (select_doctor_day db d day))"
  by (simp add: select_doctor_day_def)

lemma set_select_doctor_day:
  "set (select_doctor_day db d day) =
     join_patient db ` {a \<in> set (appointments_tbl db).
        doctor_id a = d \<and> appointment_date a = day \<and>
        status a \<in> {scheduled, in_consultation, completed}}"
  by (auto simp: select_doctor_day_def)

lemma join_patient_fields [simp]:
  "a_id (join_patient db a) = a_id a" "status (join_patient db a) = status a"
  "doctor_id (join_patient db a) = doctor_id a"
  "appointment_date (join_patient db a) = appointment_date a"
  "appointment_time (join_patient db a) = appointment_time a"
  by (simp_all add: join_patient_def)

lemma sorted_take_drop_le:
  "sorted (map f xs) \<Longrightarrow> a \<in> set (take n xs) \<Longrightarrow> b \<in> set (drop n xs) \<Longrightarrow> f a \<le> f b"
proof -
  assume s: "sorted (map f xs)" and a: "a \<in> set (take n xs)" and b: "b \<in> set (drop n xs)"
  have "sorted (map f (take n xs) @ map f (drop n xs))"
    using s by (simp flip: map_append)
  then show "f a \<le> f b" using a b by (auto simp: sorted_append)
qed

lemma update_appointments_rows:
  "appointments_tbl (update_appointments db None now i f) =
     map (\<lambda>a. if a_id a = i then (f a)\<lparr>updated_at := Some now\<rparr> else a) (appointments_tbl db)"
  "patients_tbl (update_appointments db err now i f) = patients_tbl db"
  "doctors_tbl (update_appointments db err now i f) = doctors_tbl db"
  "update_appointments db (Some e) now i f = db"
  by (simp_all add: update_appointments_def split: option.splits)

lemma slice_last_4: "4 \<le> length s \<Longrightarrow> slice_from (- 4) s = drop (length s - 4) s"
  by (simp add: slice_from_def Let_def nat_diff_distrib' max_def)

text \<open>
  Claim C5 as stated fails. With two scheduled appointments (09:00 and 10:00) and none in
  consultation, the start button of the later one is rendered enabled too, not only that
  of the oldest.
\<close>

theorem C5_counterexample:
  "start_buttons (refresh store_0900_1000 None (Some ''d1'') ''2025-03-10'' initial_dashboard)
     = [(''a1'', False), (''a2'', False)] \<and>
   map appointment_time
     (nextAppointments (refresh store_0900_1000 None (Some ''d1'') ''2025-03-10'' initial_dashboard))
     = [''09:00'', ''10:00'']"
  by (simp add: start_buttons_def refresh_fields select_doctor_day_def store_0900_1000_def
      store_of_def appt_def join_patient_def)

text \<open>
  Claim C5, amended. On the doctor dashboard, for every fetched day's queue, a start
  button is shown for each of the (at most five) listed scheduled appointments, and the
  start action is enabled for each of them while no fetched appointment is in
  consultation; once some appointment is in consultation the start action is disabled for
  every appointment.
\<close>

theorem C5_start_enabled_iff:
  "map fst (start_buttons (refresh db None (Some d) day st)) =
     map a_id (take 5 (filter (\<lambda>apt. status apt = scheduled) (select_doctor_day db d day))) \<and>
   (\<forall>i. start_enabled (refresh db None (Some d) day st) i =
      (i \<in> a_id ` set (take 5 (filter (\<lambda>apt. status apt = scheduled) (select_doctor_day db d day))) \<and>
       \<not> (\<exists>a \<in> set (select_doctor_day db d day). status a = in_consultation)))"
  by (auto simp: start_enabled_def start_buttons_def refresh_fields find_None_iff o_def
      dest: in_set_takeD)

theorem C5_witness:
  "start_enabled (refresh store_0900_1000 None (Some ''d1'') ''2025-03-10'' initial_dashboard) ''a2'' \<and>
   \<not> start_enabled (refresh store_in_consultation None (Some ''d1'') ''2025-03-10'' initial_dashboard) ''a2''"
  using C5_start_enabled_iff [of store_0900_1000 "''d1''" "''2025-03-10''" initial_dashboard]
    C5_start_enabled_iff [of store_in_consultation "''d1''" "''2025-03-10''" initial_dashboard]
  by (simp add: select_doctor_day_def store_0900_1000_def store_in_consultation_def
      store_of_def appt_def join_patient_def)



text \<open>
  Claim C9. \<open>maskPhone\<close> shows a phone of at least 4 characters as the prefix
  \<^verbatim>\<open>***-***-\<close> and its last 4 characters, and a shorter (or empty) phone unchanged; the
  queue applies it to the patient's phone.
\<close>

theorem C9_maskPhone:
  "(4 \<le> length phone_str \<longrightarrow>
      maskPhone phone_str = ''***-***-'' @ drop (length phone_str - 4) phone_str \<and>
      length (drop (length phone_str - 4) phone_str) = 4) \<and>
   (length phone_str < 4 \<longrightarrow> maskPhone phone_str = phone_str) \<and>
   (patient appointment = Some p \<longrightarrow> queue_phone appointment = maskPhone (phone p))"
  by (auto simp: maskPhone_def slice_last_4 queue_phone_def)

theorem C9_witness:
  "maskPhone ''5551234567'' = ''***-***-4567'' \<and> maskPhone ''123'' = ''123'' \<and> maskPhone [] = [] \<and>
   queue_phone appt_joined = ''***-***-4567''"
  using C9_maskPhone [of "''5551234567''" appt_joined patient_no_last_name]
    C9_maskPhone [of "''123''"] C9_maskPhone [of "[]"]
  by (simp add: appt_joined_def patient_no_last_name_def)

text \<open>
  Claim C10. For every fetched day's list, "Next Patients" holds the first five scheduled
  appointments of the list, which is in ascending time order, and no more: the "Waiting"
  count is the smaller of 5 and the number of scheduled appointments; the entries are
  scheduled appointments of that doctor and date, in ascending time order, none later than
  a scheduled appointment left out.
\<close>

theorem C10_next_patients_first_five:
  "nextAppointments (refresh db None (Some d) day st) =
     take 5 (filter (\<lambda>apt. status apt = scheduled) (select_doctor_day db d day)) \<and>
   waiting_count (refresh db None (Some d) day st) =
     min 5 (length (filter (\<lambda>apt. status apt = scheduled) (select_doctor_day db d day))) \<and>
   waiting_count (refresh db None (Some d) day st) \<le> 5 \<and>
   sorted (map appointment_time (nextAppointments (refresh db None (Some d) day st))) \<and>
   (\<forall>a \<in> set (nextAppointments (refresh db None (Some d) day st)).
      status a = scheduled \<and> doctor_id a = d \<and> appointment_date a = day \<and>
      (\<forall>b \<in> set (drop 5 (filter (\<lambda>apt. status apt = scheduled) (select_doctor_day db d day))).
         appointment_time a \<le> appointment_time b))"
proof -
  let ?L = "select_doctor_day db d day"
  let ?S = "filter (\<lambda>apt. status apt = scheduled) ?L"
  have sS: "sorted (map appointment_time ?S)"
    using sorted_select_doctor_day by (rule sorted_filter)
  have "sorted (take 5 (map appointment_time ?S))"
    using sS by (rule sorted_wrt_take)
  then have s5: "sorted (map appointment_time (take 5 ?S))" by (simp add: take_map)
  have mem: "status a = scheduled \<and> doctor_id a = d \<and> appointment_date a = day"
    if "a \<in> set (take 5 ?S)" for a
  proof -
    from that have "a \<in> set ?S" by (rule in_set_takeD)
    then show ?thesis by (auto simp: set_select_doctor_day)
  qed
  have le: "appointment_time a \<le> appointment_time b"
    if "a \<in> set (take 5 ?S)" "b \<in> set (drop 5 ?S)" for a b
    using sS that by (rule sorted_take_drop_le)
  have n: "nextAppointments (refresh db None (Some d) day st) = take 5 ?S"
    by (rule refresh_fields(3))
  have w: "waiting_count (refresh db None (Some d) day st) = min 5 (length ?S)"
    unfolding waiting_count_def n by (simp add: min.commute)
  have c3: "min 5 (length ?S) \<le> 5" by simp
  have c5: "\<forall>a \<in> set (take 5 ?S).
      status a = scheduled \<and> doctor_id a = d \<and> appointment_date a = day \<and>
      (\<forall>b \<in> set (drop 5 ?S). appointment_time a \<le> appointment_time b)"
    using mem le by blast
  show ?thesis
    unfolding w unfolding n by (intro conjI refl s5 c3 c5)
qed

theorem C10_witness:
  "map a_id (nextAppointments (refresh store_busy_day None (Some ''d1'') ''2025-03-10'' initial_dashboard))
     = [''a1'', ''a2'', ''a3'', ''a4'', ''a5''] \<and>
   waiting_count (refresh store_busy_day None (Some ''d1'') ''2025-03-10'' initial_dashboard) = 5 \<and>
   length (filter (\<lambda>apt. status apt = scheduled) (appointments_tbl store_busy_day)) = 7"
  using C10_next_patients_first_five [of store_busy_day "''d1''" "''2025-03-10''" initial_dashboard]
  by (simp add: select_doctor_day_def store_busy_day_def store_of_def appt_def join_patient_def)

section \<open>Properties of the reschedule request\<close>

text \<open>
  Claim C8. For an appointment with patient and doctor loaded, the reschedule request
  sends exactly one request: a POST to the fixed endpoint whose body has exactly the five
  fields doctor_name, patient_first_name, patient_last_name (empty when absent),
  appointment_date and appointment_time. A failure is reported exactly when the request
  throws or the response status is outside 200..299.
\<close>

theorem C8_reschedule_request:
  assumes "patient appointment = Some p" and "doctor appointment = Some d"
  shows "\<exists>req. fst (handleRequestReschedule fetch appointment) = [req] \<and>
           url req = ''https://n8n.maxgrow.pro/webhook/emergency'' \<and>
           http_method req = ''POST'' \<and>
           body req =
             [(''doctor_name'', full_name d),
              (''patient_first_name'', first_name p),
              (''patient_last_name'', (case last_name p of None \<Rightarrow> [] | Some l \<Rightarrow> l)),
              (''appointment_date'', appointment_date appointment),
              (''appointment_time'', appointment_time appointment)] \<and>
           reported_failure (snd (handleRequestReschedule fetch appointment)) =
             (case fetch req of Inl e \<Rightarrow> True | Inr code \<Rightarrow> \<not> (200 \<le> code \<and> code \<le> 299))"
  using assms
  by (auto simp: handleRequestReschedule_def Let_def reschedule_payload_def or_empty_def
      reported_failure_def response_ok_def split: sum.splits)

theorem C8_witness:
  "(\<exists>req. fst (handleRequestReschedule (\<lambda>r. Inr 503) appt_joined) = [req] \<and>
      http_method req = ''POST'' \<and>
      body req = [(''doctor_name'', ''Dr. Costa''), (''patient_first_name'', ''Rui''),
                  (''patient_last_name'', []), (''appointment_date'', ''2025-03-10''),
                  (''appointment_time'', ''09:00'')]) \<and>
   reported_failure (snd (handleRequestReschedule (\<lambda>r. Inr 503) appt_joined)) \<and>
   reported_failure (snd (handleRequestReschedule (\<lambda>r. Inl ''network down'') appt_joined)) \<and>
   \<not> reported_failure (snd (handleRequestReschedule (\<lambda>r. Inr 204) appt_joined))"
proof -
  have p: "patient appt_joined = Some patient_no_last_name"
    and d: "doctor appt_joined = Some doctor_costa"
    by (simp_all add: appt_joined_def)
  show ?thesis
    using C8_reschedule_request [OF p d, of "\<lambda>r. Inr 503"]
      C8_reschedule_request [OF p d, of "\<lambda>r. Inl ''network down''"]
      C8_reschedule_request [OF p d, of "\<lambda>r. Inr 204"]
    by (auto simp: appt_joined_def appt_def patient_no_last_name_def doctor_costa_def)
qed

section \<open>Properties of cancelling\<close>

lemma insort_key_map_invariant:
  "(\<And>x. k (g x) = k x) \<Longrightarrow> insort_key k (g x) (map g ys) = map g (insort_key k x ys)"
  by (induction ys) simp_all

lemma sort_key_map_invariant:
  "(\<And>x. k (g x) = k x) \<Longrightarrow> sort_key k (map g xs) = map g (sort_key k xs)"
  by (induction xs) (simp_all add: insort_key_map_invariant)

lemma handleCancel_rows:
  "appointments_tbl (fst (handleCancel db None now appointment)) =
     map (cancel_row (a_id appointment) now) (appointments_tbl db)"
  "patients_tbl (fst (handleCancel db err now appointment)) = patients_tbl db"
  "doctors_tbl (fst (handleCancel db err now appointment)) = doctors_tbl db"
  by (simp_all add: handleCancel_def update_appointments_rows cancel_row_def split: option.splits)

lemma cancel_row_fields [simp]:
  "a_id (cancel_row i now a) = a_id a" "patient_id (cancel_row i now a) = patient_id a"
  "doctor_id (cancel_row i now a) = doctor_id a"
  "appointment_date (cancel_row i now a) = appointment_date a"
  "appointment_time (cancel_row i now a) = appointment_time a"
  "complaint (cancel_row i now a) = complaint a"
  "a_telegram_id (cancel_row i now a) = a_telegram_id a"
  "created_at (cancel_row i now a) = created_at a"
  "patient (cancel_row i now a) = patient a" "doctor (cancel_row i now a) = doctor a"
  by (simp_all add: cancel_row_def)

lemma select_all_cancel:
  "select_all (fst (handleCancel db None now appointment)) =
     map (cancel_row (a_id appointment) now) (select_all db)"
proof -
  let ?g = "cancel_row (a_id appointment) now"
  let ?db' = "fst (handleCancel db None now appointment)"
  have j: "join_doctor ?db' (join_patient ?db' (?g a)) = ?g (join_doctor db (join_patient db a))" for a
    by (simp add: join_doctor_def join_patient_def handleCancel_rows cancel_row_def)
  have "select_all ?db' =
      sort_key (\<lambda>a. (appointment_date a, appointment_time a))
        (map ?g (map (\<lambda>a. join_doctor db (join_patient db a)) (appointments_tbl db)))"
    by (simp add: select_all_def handleCancel_rows(1) o_def j)
  also have "\<dots> = map ?g (select_all db)"
    unfolding select_all_def by (rule sort_key_map_invariant) simp
  finally show ?thesis .
qed

lemma filterAppointments_cancel:
  "filterAppointments (map (cancel_row i now) xs) sd day q =
     map (cancel_row i now) (filterAppointments xs sd day q)"
proof -
  have m: "matches_search q (cancel_row i now a) = matches_search q a" for a
    by (simp add: matches_search_def patientName_def doctorName_def)
  show ?thesis
    by (simp add: filterAppointments_def Let_def filter_map o_def m)
qed

text \<open>
  Claim C7, amended. Cancelling an appointment (the update succeeding) deletes no row and
  changes, in the rows with its id, the status (to cancelled) and, through the store's
  trigger, \<open>updated_at\<close>, and nothing else; other rows are unchanged. The nurse's list
  shows the same appointments after the cancellation as before it, the cancelled one
  included, now with the status cancelled.
\<close>

theorem C7_cancel_keeps_row_and_listing:
  "length (appointments_tbl (fst (handleCancel db None now appointment))) =
     length (appointments_tbl db) \<and>
   (\<forall>k < length (appointments_tbl db).
      (appointments_tbl (fst (handleCancel db None now appointment)) ! k)
         \<lparr>status := status (appointments_tbl db ! k),
          updated_at := updated_at (appointments_tbl db ! k)\<rparr> = appointments_tbl db ! k \<and>
      (a_id (appointments_tbl db ! k) = a_id appointment \<longrightarrow>
         status (appointments_tbl (fst (handleCancel db None now appointment)) ! k) = cancelled) \<and>
      (a_id (appointments_tbl db ! k) \<noteq> a_id appointment \<longrightarrow>
         appointments_tbl (fst (handleCancel db None now appointment)) ! k = appointments_tbl db ! k)) \<and>
   map a_id (nurse_list (fst (handleCancel db None now appointment)) selectedDoctor selectedDate searchQuery)
     = map a_id (nurse_list db selectedDoctor selectedDate searchQuery) \<and>
   (\<forall>x \<in> set (nurse_list (fst (handleCancel db None now appointment)) selectedDoctor selectedDate searchQuery).
      a_id x = a_id appointment \<longrightarrow> status x = cancelled)"
proof -
  let ?db' = "fst (handleCancel db None now appointment)"
  let ?g = "cancel_row (a_id appointment) now"
  have rows: "appointments_tbl ?db' = map ?g (appointments_tbl db)"
    by (rule handleCancel_rows)
  have nl: "nurse_list ?db' selectedDoctor selectedDate searchQuery =
      map ?g (nurse_list db selectedDoctor selectedDate searchQuery)"
    by (simp add: nurse_list_def fetchAppointments_nurse_def request_def select_all_cancel
        filterAppointments_cancel)
  have c1: "length (appointments_tbl ?db') = length (appointments_tbl db)"
    unfolding rows by simp
  have c2: "\<forall>k < length (appointments_tbl db).
      (appointments_tbl ?db' ! k)
         \<lparr>status := status (appointments_tbl db ! k),
          updated_at := updated_at (appointments_tbl db ! k)\<rparr> = appointments_tbl db ! k \<and>
      (a_id (appointments_tbl db ! k) = a_id appointment \<longrightarrow>
         status (appointments_tbl ?db' ! k) = cancelled) \<and>
      (a_id (appointments_tbl db ! k) \<noteq> a_id appointment \<longrightarrow>
         appointments_tbl ?db' ! k = appointments_tbl db ! k)"
    unfolding rows by (simp add: cancel_row_def)
  have c3: "map a_id (nurse_list ?db' selectedDoctor selectedDate searchQuery)
     = map a_id (nurse_list db selectedDoctor selectedDate searchQuery)"
    unfolding nl by (simp add: o_def)
  have c4: "\<forall>x \<in> set (nurse_list ?db' selectedDoctor selectedDate searchQuery).
      a_id x = a_id appointment \<longrightarrow> status x = cancelled"
    unfolding nl by (auto simp: cancel_row_def)
  show ?thesis by (intro conjI c1 c2 c3 c4)
qed

text \<open>
  Claim C7 as stated fails: the nurse's list is fetched and filtered without regard to the
  status, so a cancelled appointment is still in it.
\<close>

theorem C7_counterexample:
  "map a_id
     (nurse_list
        (fst (handleCancel store_0900_1000 None ''2025-03-09T17:00:00Z''
                (appt ''a1'' ''d1'' ''2025-03-10'' ''09:00'' scheduled)))
        ''all'' ''2025-03-10'' []) = [''a1'', ''a2'']"
  by (simp add: nurse_list_def fetchAppointments_nurse_def request_def select_all_def
      filterAppointments_def handleCancel_def update_appointments_def store_0900_1000_def
      store_of_def appt_def join_patient_def join_doctor_def)

theorem C7_witness:
  "map a_id
     (nurse_list
        (fst (handleCancel store_in_consultation None ''2025-03-09T17:00:00Z''
                (appt ''a2'' ''d1'' ''2025-03-10'' ''10:00:00'' scheduled)))
        ''d1'' ''2025-03-10'' ''ana'') = [''a1'', ''a2''] \<and>
   length (appointments_tbl
        (fst (handleCancel store_in_consultation None ''2025-03-09T17:00:00Z''
                (appt ''a2'' ''d1'' ''2025-03-10'' ''10:00:00'' scheduled)))) = 2"
proof -
  have before: "map a_id (nurse_list store_in_consultation ''d1'' ''2025-03-10'' ''ana'') = [''a1'', ''a2'']"
    by code_simp
  have len: "length (appointments_tbl store_in_consultation) = 2"
    by (simp add: store_in_consultation_def store_of_def)
  show ?thesis
    using C7_cancel_keeps_row_and_listing [of store_in_consultation "''2025-03-09T17:00:00Z''"
      "appt ''a2'' ''d1'' ''2025-03-10'' ''10:00:00'' scheduled" "''d1''" "''2025-03-10''" "''ana''"]
    unfolding before len by blast
qed

section \<open>Properties of the store under the actions\<close>

lemma clash_sym: "clash a b = clash b a"
  by (auto simp: clash_def within_30_sym)

lemma no_double_booking_same_rows:
  "appointments_tbl db' = appointments_tbl db \<Longrightarrow>
     no_double_booking c db' = no_double_booking c db"
  by (simp add: no_double_booking_def)

lemma store_inv_same_rows:
  "appointments_tbl db' = appointments_tbl db \<Longrightarrow> store_inv db' = store_inv db"
  by (simp add: store_inv_def no_double_booking_def)

text \<open>Rewriting rows in place, keeping ids.\<close>

lemma store_inv_map:
  assumes inv: "store_inv db"
    and rows: "appointments_tbl db' = map h (appointments_tbl db)"
    and ids: "\<And>a. a_id (h a) = a_id a"
    and ok: "\<And>a b. a \<in> set (appointments_tbl db) \<Longrightarrow> b \<in> set (appointments_tbl db) \<Longrightarrow>
               a_id a \<noteq> a_id b \<Longrightarrow> is_active (status (h a)) \<Longrightarrow> is_active (status (h b)) \<Longrightarrow>
               clash (h a) (h b) \<Longrightarrow>
               is_active (status a) \<and> is_active (status b) \<and> clash a b"
  shows "store_inv db'"
proof -
  have d: "distinct (map a_id (appointments_tbl db'))"
    using inv by (simp add: rows store_inv_def o_def ids)
  have "\<not> clash a' b'"
    if "a' \<in> set (appointments_tbl db')" "b' \<in> set (appointments_tbl db')"
      "a_id a' \<noteq> a_id b'" "is_active (status a')" "is_active (status b')" for a' b'
  proof
    assume c: "clash a' b'"
    from that(1,2) obtain a b where ab: "a \<in> set (appointments_tbl db)" "a' = h a"
        "b \<in> set (appointments_tbl db)" "b' = h b"
      unfolding rows by auto
    with that(3) have ne: "a_id a \<noteq> a_id b" by (simp add: ids)
    from ok [OF ab(1) ab(3) ne] that(4,5) c ab(2,4)
    have "is_active (status a)" "is_active (status b)" "clash a b" by simp_all
    with inv ab(1,3) ne show False
      by (auto simp: store_inv_def no_double_booking_def)
  qed
  then have "no_double_booking is_active db'"
    unfolding no_double_booking_def by blast
  with d show ?thesis by (simp add: store_inv_def)
qed

lemma store_inv_status_update:
  assumes inv: "store_inv db"
    and act: "is_active s \<Longrightarrow> \<forall>a \<in> set (appointments_tbl db). a_id a = i \<longrightarrow> is_active (status a)"
  shows "store_inv (update_appointments db err now i (\<lambda>a. a\<lparr>status := s\<rparr>))"
proof (cases err)
  case (Some e)
  then show ?thesis using inv by (simp add: update_appointments_rows)
next
  case None
  let ?h = "\<lambda>a. if a_id a = i then a\<lparr>status := s, updated_at := Some now\<rparr> else a"
  show ?thesis
  proof (rule store_inv_map [OF inv, where h = ?h])
    show "appointments_tbl (update_appointments db err now i (\<lambda>a. a\<lparr>status := s\<rparr>)) =
        map ?h (appointments_tbl db)"
      using None by (simp add: update_appointments_rows)
  next
    fix a show "a_id (?h a) = a_id a" by simp
  next
    fix a b
    assume "a \<in> set (appointments_tbl db)" "b \<in> set (appointments_tbl db)"
      "is_active (status (?h a))" "is_active (status (?h b))" "clash (?h a) (?h b)"
    then show "is_active (status a) \<and> is_active (status b) \<and> clash a b"
      using act by (auto simp: clash_def split: if_splits)
  qed
qed

lemma store_inv_edit:
  assumes inv: "store_inv db"
  shows "store_inv (fst (handleSubmit_edit db err_chk err_upd now f))"
proof (cases "\<exists>ap day. e_appointment f = Some ap \<and> e_date f = Some day \<and>
     e_selectedDoctor f \<noteq> [] \<and> e_time f \<noteq> [] \<and>
     checkTimeConflict_edit db err_chk (e_selectedDoctor f) day (e_time f) (a_id ap) = Inr False \<and>
     err_upd = None")
  case False
  then have "fst (handleSubmit_edit db err_chk err_upd now f) = db"
    by (auto simp: handleSubmit_edit_def split: option.splits sum.splits bool.splits)
  then show ?thesis using inv by simp
next
  case True
  then obtain ap day where f: "e_appointment f = Some ap" "e_date f = Some day"
      "e_selectedDoctor f \<noteq> []" "e_time f \<noteq> []" "err_upd = None"
    and chk: "checkTimeConflict_edit db err_chk (e_selectedDoctor f) day (e_time f) (a_id ap) = Inr False"
    by blast
  from chk have "err_chk = None"
    by (cases err_chk) (simp_all add: checkTimeConflict_throws)
  with chk have free: "\<forall>u \<in> set (select_times_except db (e_selectedDoctor f) day (a_id ap)).
      \<not> within_30 (e_time f) u"
    by (simp add: checkTimeConflict_edit_select)
  let ?h = "\<lambda>a. if a_id a = a_id ap
      then a\<lparr>doctor_id := e_selectedDoctor f, appointment_date := day,
             appointment_time := e_time f, status := e_status f, updated_at := Some now\<rparr>
      else a"
  have rows: "appointments_tbl (fst (handleSubmit_edit db err_chk err_upd now f)) =
      map ?h (appointments_tbl db)"
    using f chk by (simp add: handleSubmit_edit_def update_appointments_rows)
  show ?thesis
  proof (rule store_inv_map [OF inv rows])
    fix a show "a_id (?h a) = a_id a" by simp
  next
    fix a b
    assume ab: "a \<in> set (appointments_tbl db)" "b \<in> set (appointments_tbl db)"
      and ne: "a_id a \<noteq> a_id b"
      and act: "is_active (status (?h a))" "is_active (status (?h b))"
      and c: "clash (?h a) (?h b)"
    consider "a_id a = a_id ap" "a_id b \<noteq> a_id ap" | "a_id b = a_id ap" "a_id a \<noteq> a_id ap"
      | "a_id a \<noteq> a_id ap" "a_id b \<noteq> a_id ap"
      using ne by metis
    then show "is_active (status a) \<and> is_active (status b) \<and> clash a b"
    proof cases
      case 1
      with act c have "appointment_time b \<in> set (select_times_except db (e_selectedDoctor f) day (a_id ap))"
        and "within_30 (e_time f) (appointment_time b)"
        using ab by (auto simp: select_times_except_def clash_def is_active_def)
      with free show ?thesis by blast
    next
      case 2
      with act c have "appointment_time a \<in> set (select_times_except db (e_selectedDoctor f) day (a_id ap))"
        and "within_30 (e_time f) (appointment_time a)"
        using ab by (auto simp: select_times_except_def clash_def is_active_def within_30_sym)
      with free show ?thesis by blast
    next
      case 3
      with act c show ?thesis by simp
    qed
  qed
qed

lemma store_inv_append:
  assumes inv: "store_inv db"
    and rows: "appointments_tbl db' = appointments_tbl db @ [row]"
    and fresh: "a_id row \<notin> set (map a_id (appointments_tbl db))"
    and free: "\<forall>a \<in> set (appointments_tbl db). is_active (status a) \<longrightarrow> \<not> clash row a"
  shows "store_inv db'"
proof -
  have d: "distinct (map a_id (appointments_tbl db'))"
    using inv fresh by (simp add: rows store_inv_def)
  have old: "\<And>a b. a \<in> set (appointments_tbl db) \<Longrightarrow> b \<in> set (appointments_tbl db) \<Longrightarrow>
      a_id a \<noteq> a_id b \<Longrightarrow> is_active (status a) \<Longrightarrow> is_active (status b) \<Longrightarrow> \<not> clash a b"
    using inv unfolding store_inv_def no_double_booking_def by blast
  have "\<not> clash a b"
    if "a \<in> set (appointments_tbl db')" "b \<in> set (appointments_tbl db')"
      "a_id a \<noteq> a_id b" "is_active (status a)" "is_active (status b)" for a b
  proof -
    from that(1,2) have "a \<in> set (appointments_tbl db) \<or> a = row"
      "b \<in> set (appointments_tbl db) \<or> b = row"
      unfolding rows by auto
    then consider "a \<in> set (appointments_tbl db)" "b \<in> set (appointments_tbl db)"
      | "a = row" "b \<in> set (appointments_tbl db)" | "b = row" "a \<in> set (appointments_tbl db)"
      | "a = row" "b = row"
      by blast
    then show ?thesis
    proof cases
      case 1 then show ?thesis using old that(3-5) by blast
    next
      case 2 then show ?thesis using free that(5) by blast
    next
      case 3 then show ?thesis using free that(4) clash_sym by blast
    next
      case 4 then show ?thesis using that(3) by simp
    qed
  qed
  then have "no_double_booking is_active db'"
    unfolding no_double_booking_def by blast
  with d show ?thesis by (simp add: store_inv_def)
qed

lemma handleSubmit_create_cases:
  "appointments_tbl (fst (handleSubmit_create db r f)) = appointments_tbl db \<or>
   (\<exists>day patientId db1.
      appointments_tbl db1 = appointments_tbl db \<and>
      checkTimeConflict db1 (err_check r) (c_selectedDoctor f) day (c_time f) = Inr False \<and>
      appointments_tbl (fst (handleSubmit_create db r f)) =
        appointments_tbl db @
          [new_appointment_row r patientId (c_selectedDoctor f) day (c_time f) (c_complaint f)])"
proof (cases "isNewPatient f")
  case True
  then show ?thesis
    by (simp add: handleSubmit_create_def Let_def split: option.splits sum.splits bool.splits)
      (metis (no_types, lifting) DataStore.select_convs(1) DataStore.surjective DataStore.update_convs(2))
next
  case False
  then show ?thesis
    by (auto simp: handleSubmit_create_def Let_def split: option.splits sum.splits bool.splits)
qed

lemma select_times_free:
  "(\<forall>u \<in> set (select_times db D day). \<not> within_30 t u) =
   (\<forall>a \<in> set (appointments_tbl db).
      doctor_id a = D \<and> appointment_date a = day \<and> is_active (status a) \<longrightarrow>
      \<not> within_30 t (appointment_time a))"
  by (auto simp: select_times_def is_active_def)

lemma new_appointment_row_fields:
  "a_id (new_appointment_row r p D day t c) = new_appointment_id r"
  "doctor_id (new_appointment_row r p D day t c) = D"
  "appointment_date (new_appointment_row r p D day t c) = day"
  "appointment_time (new_appointment_row r p D day t c) = t"
  "status (new_appointment_row r p D day t c) = scheduled"
  by (simp_all add: new_appointment_row_def)

lemma store_inv_create:
  assumes inv: "store_inv db"
    and fresh: "new_appointment_id r \<notin> set (map a_id (appointments_tbl db))"
  shows "store_inv (fst (handleSubmit_create db r f))"
  using handleSubmit_create_cases [of db r f]
proof (elim disjE exE conjE)
  assume same: "appointments_tbl (fst (handleSubmit_create db r f)) = appointments_tbl db"
  show ?thesis
    using inv unfolding store_inv_same_rows [OF same] .
next
  fix day patientId db1
  assume rows1: "appointments_tbl db1 = appointments_tbl db"
    and chk: "checkTimeConflict db1 (err_check r) (c_selectedDoctor f) day (c_time f) = Inr False"
    and rows: "appointments_tbl (fst (handleSubmit_create db r f)) =
        appointments_tbl db @
          [new_appointment_row r patientId (c_selectedDoctor f) day (c_time f) (c_complaint f)]"
  let ?row = "new_appointment_row r patientId (c_selectedDoctor f) day (c_time f) (c_complaint f)"
  from chk have none: "err_check r = None"
    by (cases "err_check r") (simp_all add: checkTimeConflict_throws)
  have "checkTimeConflict db1 None (c_selectedDoctor f) day (c_time f) = Inr False"
    using chk unfolding none .
  then have "\<forall>u \<in> set (select_times db1 (c_selectedDoctor f) day). \<not> within_30 (c_time f) u"
    unfolding checkTimeConflict_select by simp
  then have "\<forall>a \<in> set (appointments_tbl db).
      doctor_id a = c_selectedDoctor f \<and> appointment_date a = day \<and> is_active (status a) \<longrightarrow>
      \<not> within_30 (c_time f) (appointment_time a)"
    unfolding select_times_free rows1 .
  then have free: "\<forall>a \<in> set (appointments_tbl db). is_active (status a) \<longrightarrow> \<not> clash ?row a"
    unfolding clash_def new_appointment_row_fields by auto
  have id: "a_id ?row \<notin> set (map a_id (appointments_tbl db))"
    using fresh unfolding new_appointment_row_fields .
  show ?thesis
    by (rule store_inv_append [OF inv rows id free])
qed

lemma start_enabled_scheduled:
  assumes "start_enabled (refresh db None (Some d) day st) i"
  shows "\<exists>a \<in> set (appointments_tbl db). a_id a = i \<and> status a = scheduled"
proof -
  from assms obtain x where "x \<in> set (nextAppointments (refresh db None (Some d) day st))" "a_id x = i"
    by (auto simp: start_enabled_def start_buttons_def)
  then have "x \<in> set (filter (\<lambda>apt. status apt = scheduled) (select_doctor_day db d day))"
    unfolding refresh_fields by (auto dest: in_set_takeD)
  then have "x \<in> set (select_doctor_day db d day)" "status x = scheduled" by simp_all
  with \<open>a_id x = i\<close> show ?thesis
    unfolding set_select_doctor_day by auto
qed

text \<open>
  On a store with distinct ids, a dashboard fetched from the store offers the start only
  for appointments that are still active there.
\<close>

lemma fresh_dashboard_still_active:
  assumes d: "distinct (map a_id (appointments_tbl db))"
    and en: "start_enabled (refresh db None (Some doctorId) day st) i"
  shows "still_active db i"
proof -
  from start_enabled_scheduled [OF en] obtain x where x: "x \<in> set (appointments_tbl db)"
      "a_id x = i" "status x = scheduled"
    by blast
  have "a = x" if "a \<in> set (appointments_tbl db)" "a_id a = i" for a
    using d that x(1,2) by (auto simp: distinct_map inj_on_def)
  with x(3) show ?thesis
    by (auto simp: still_active_def is_active_def)
qed

lemma store_inv_start:
  assumes inv: "store_inv db"
    and act: "still_active db i"
  shows "store_inv (handleStartConsultation db err now i)"
  unfolding handleStartConsultation_def
proof (rule store_inv_status_update [OF inv])
  show "\<forall>a \<in> set (appointments_tbl db). a_id a = i \<longrightarrow> is_active (status a)"
    using act unfolding still_active_def .
qed

lemma store_inv_step:
  assumes "store_inv db" and "step db act = Some db'" and "start_on_active db act"
  shows "store_inv db'"
proof (cases act)
  case (Create r f)
  with assms show ?thesis by (auto split: if_splits intro: store_inv_create)
next
  case (Edit err_chk err_upd now f)
  with assms show ?thesis by (auto intro: store_inv_edit)
next
  case (Start st err now i)
  with assms show ?thesis
    by (auto simp: start_on_active_def split: if_splits intro: store_inv_start)
next
  case (Complete st err now)
  with assms show ?thesis
    by (auto simp: handleCompleteConsultation_def is_active_def split: option.splits
        intro: store_inv_status_update)
next
  case (NoShow st err now)
  with assms show ?thesis
    by (auto simp: handleMarkNoShow_def is_active_def split: option.splits
        intro: store_inv_status_update)
next
  case (Cancel err now ap)
  have "fst (handleCancel db err now ap) =
      update_appointments db err now (a_id ap) (\<lambda>a. a\<lparr>status := cancelled\<rparr>)"
    by (simp add: handleCancel_def update_appointments_def split: option.splits)
  with Cancel assms show ?thesis
    by (auto simp: is_active_def intro: store_inv_status_update)
qed

lemma store_inv_run:
  "store_inv db \<Longrightarrow> run db acts = Some db' \<Longrightarrow> starts_on_active db acts \<Longrightarrow> store_inv db'"
proof (induction acts arbitrary: db)
  case Nil
  then show ?case by simp
next
  case (Cons act acts)
  from Cons.prems(2) obtain db1 where s: "step db act = Some db1" and r: "run db1 acts = Some db'"
    by (auto split: option.splits)
  from Cons.prems(3) s have a: "start_on_active db act" and rest: "starts_on_active db1 acts"
    by simp_all
  from Cons.prems(1) s a have "store_inv db1" by (rule store_inv_step)
  then show ?case using r rest by (rule Cons.IH)
qed

text \<open>
  Without that condition the property can be lost: started from a dashboard that shows an
  earlier store, the cancelled a1 is put in consultation at the time a2 is booked for.
\<close>

lemma stale_start_double_books:
  "map_option (\<lambda>db. (map (\<lambda>a. (a_id a, appointment_time a, status a)) (appointments_tbl db),
                       no_double_booking is_active db))
     (run store_empty stale_start)
   = Some ([(''a1'', ''09:00'', in_consultation), (''a2'', ''09:00'', scheduled)], False)"
  "starts_on_active store_empty stale_start = False"
  by code_simp+

text \<open>
  Claim C2 as stated fails. The checks look only at appointments that are scheduled or in
  consultation: after the 09:00 appointment is completed, a new one at 09:10 for the same
  doctor and date is accepted, and the store holds two appointments, neither cancelled nor
  no-show, 10 minutes apart.
\<close>

theorem C2_counterexample:
  "map_option (\<lambda>db. (map (\<lambda>a. (a_id a, appointment_time a, status a)) (appointments_tbl db),
                       no_double_booking not_cancelled_or_no_show db))
     (run store_empty completed_then_booked)
   = Some ([(''a1'', ''09:00'', completed), (''a2'', ''09:10'', scheduled)], False)"
  by code_simp

text \<open>
  Claim C2, amended. Every store reached by the application's actions (create, edit,
  start, complete, no-show, cancel, each taken on the current store) from a store with
  distinct ids and no double booking, in particular from a store without appointments,
  satisfies: no two appointments whose status is scheduled or in_consultation exist for
  the same doctor on the same date with times less than 30 minutes apart, provided every
  consultation is started for an appointment that is still scheduled or in consultation in
  the store at that moment (as it is when the dashboard shows the current store). The
  conflict check on create and edit enforces this at write time.
\<close>

theorem C2_no_active_double_booking:
  assumes "distinct (map a_id (appointments_tbl db0))"
    and "no_double_booking is_active db0"
    and "run db0 acts = Some db"
    and "starts_on_active db0 acts"
  shows "no_double_booking is_active db"
proof -
  from assms(1,2) have "store_inv db0" by (simp add: store_inv_def)
  then have "store_inv db" using assms(3,4) by (rule store_inv_run)
  then show ?thesis by (simp add: store_inv_def)
qed

theorem C2_witness:
  "map_option (\<lambda>db. (map (\<lambda>a. (a_id a, appointment_time a, status a)) (appointments_tbl db),
                       no_double_booking is_active db))
     (run store_empty checked_bookings)
   = Some ([(''a1'', ''09:00'', in_consultation), (''a3'', ''09:45'', scheduled)], True)"
proof -
  have rows: "map_option (\<lambda>db. map (\<lambda>a. (a_id a, appointment_time a, status a)) (appointments_tbl db))
     (run store_empty checked_bookings)
     = Some [(''a1'', ''09:00'', in_consultation), (''a3'', ''09:45'', scheduled)]"
    by code_simp
  then obtain db where r: "run store_empty checked_bookings = Some db" by auto
  have d0: "distinct (map a_id (appointments_tbl store_empty))"
    by (simp add: store_empty_def store_of_def)
  have n0: "no_double_booking is_active store_empty"
    by (simp add: store_empty_def store_of_def no_double_booking_def)
  have st: "starts_on_active store_empty checked_bookings"
    by code_simp
  from C2_no_active_double_booking [OF d0 n0 r st] rows r show ?thesis by simp
qed

end
